theory Spec2Isabelle
  imports Complex_Main "HOL-Library.Log_Nat"
begin

section \<open>Azure AD bearer-token verification (backend/auth.py)\<close>

text \<open>
  A shallow embedding of \<^verbatim>\<open>get_signing_keys\<close> and \<^verbatim>\<open>verify_token\<close> of
  \<^verbatim>\<open>src/backend/auth.py\<close>. The module-level cache dictionary is an explicit state
  record that every function takes and returns. The outside world (the clock, the HTTPS
  endpoint and the python-jose library) is an environment record of functions. Every
  call into the outside world, and the cache invalidation, is appended to a trace kept in
  the state, so that the order and the number of these calls can be stated. Exceptions
  are values: a function returns \<open>Inl e\<close> where the Python raises \<open>e\<close>.
\<close>

subsection \<open>Data\<close>

text \<open>
  JSON dictionaries are association lists read with \<^const>\<open>map_of\<close>, as
  \<^verbatim>\<open>dict.get\<close> reads them. A key record and the token header and payload are
  dictionaries with string values; the key-set document is a dictionary whose entries
  (in particular \<^verbatim>\<open>"keys"\<close>) are lists of key records. An empty dictionary is the
  empty list, which is what Python's truth test on a dictionary looks at.
\<close>

type_synonym jwk = "(string \<times> string) list"
type_synonym jwks = "(string \<times> jwk list) list"
type_synonym header = "(string \<times> string) list"
type_synonym claims = "(string \<times> string) list"
type_synonym options = "(string \<times> bool) list"

text \<open>
  The exceptions that travel through \<^verbatim>\<open>verify_token\<close>: FastAPI's
  \<^verbatim>\<open>HTTPException(status_code, detail)\<close>, python-jose's \<^verbatim>\<open>JWTError\<close> (with its
  subclasses), and any other subclass of \<^verbatim>\<open>Exception\<close>.
\<close>

datatype exn = HTTPException nat string | JWTError | OtherException

text \<open>
  What \<^verbatim>\<open>requests.get(JWKS_URL, timeout=10)\<close>, \<^verbatim>\<open>raise_for_status()\<close> and
  \<^verbatim>\<open>json()\<close> give together: a \<^verbatim>\<open>requests.RequestException\<close> (connection failure,
  timeout, non-success status) or the decoded document, a dictionary as the annotation
  of \<^verbatim>\<open>get_signing_keys\<close> says.
\<close>

datatype http_result = RequestException | Response jwks

datatype event =
    Time_time
  | Requests_get string
  | Cache_invalidate
  | Get_unverified_header string
  | Jwt_decode string jwk "string list" "string option" "string option" options

record config =
  AZURE_TENANT_ID :: "string option"
  AZURE_CLIENT_ID :: "string option"

text \<open>
  The environment. \<open>time_time env n\<close> is what the \<open>n\<close>-th call of
  \<^verbatim>\<open>time.time()\<close> returns and \<open>requests_get env url n\<close> what the \<open>n\<close>-th HTTP
  request returns (both counted from 0 over the whole trace). A Python float is the real
  number it denotes; comparing two floats is exact, adding them is not, and
  \<open>float_add env x y\<close> is what Python's \<^verbatim>\<open>x + y\<close> returns for two floats, a
  parameter like the clock. The two library functions \<^verbatim>\<open>jwt.get_unverified_header\<close> and
  \<^verbatim>\<open>jwt.decode\<close> are not part of the repository and are parameters; \<open>jwt_decode\<close>
  takes the token, the key, \<^verbatim>\<open>algorithms\<close>, \<^verbatim>\<open>audience\<close>, \<^verbatim>\<open>issuer\<close> and
  \<^verbatim>\<open>options\<close>.
\<close>

record env =
  time_time :: "nat \<Rightarrow> real"
  float_add :: "real \<Rightarrow> real \<Rightarrow> real"
  requests_get :: "string \<Rightarrow> nat \<Rightarrow> http_result"
  get_unverified_header :: "string \<Rightarrow> exn + header"
  jwt_decode :: "string \<Rightarrow> jwk \<Rightarrow> string list \<Rightarrow> string option \<Rightarrow> string option
                   \<Rightarrow> options \<Rightarrow> exn + claims"

text \<open>\<^verbatim>\<open>_signing_keys_cache = {"keys": None, "expires_at": 0}\<close> and the trace.\<close>

record state =
  cache_keys :: "jwks option"
  cache_expires_at :: real
  trace :: "event list"

definition initial_state :: state where
  "initial_state = \<lparr>cache_keys = None, cache_expires_at = 0, trace = []\<rparr>"

fun is_requests_get :: "event \<Rightarrow> bool" where
  "is_requests_get (Requests_get url) = True"
| "is_requests_get e = False"

fun is_verified_decode :: "event \<Rightarrow> bool" where
  "is_verified_decode (Jwt_decode t k algs aud iss opts) =
     (map_of opts ''verify_signature'' \<noteq> Some False)"
| "is_verified_decode e = False"

definition time_calls :: "event list \<Rightarrow> nat" where
  "time_calls evs = length (filter (\<lambda>e. e = Time_time) evs)"

definition http_calls :: "event list \<Rightarrow> nat" where
  "http_calls evs = length (filter is_requests_get evs)"

definition log_event :: "event \<Rightarrow> state \<Rightarrow> state" where
  "log_event e s = s\<lparr>trace := trace s @ [e]\<rparr>"

subsection \<open>Module constants\<close>

text \<open>An f-string renders \<^verbatim>\<open>None\<close> as the text \<^verbatim>\<open>None\<close>.\<close>

definition fmt :: "string option \<Rightarrow> string" where
  "fmt v = (case v of None \<Rightarrow> ''None'' | Some s \<Rightarrow> s)"

definition JWKS_URL :: "config \<Rightarrow> string" where
  "JWKS_URL cfg =
     ''https://login.microsoftonline.com/'' @ fmt (AZURE_TENANT_ID cfg) @ ''/discovery/v2.0/keys''"

definition ISSUER_V1 :: "config \<Rightarrow> string" where
  "ISSUER_V1 cfg = ''https://sts.windows.net/'' @ fmt (AZURE_TENANT_ID cfg) @ ''/''"

definition ISSUER_V2 :: "config \<Rightarrow> string" where
  "ISSUER_V2 cfg = ''https://login.microsoftonline.com/'' @ fmt (AZURE_TENANT_ID cfg) @ ''/v2.0''"

definition AUDIENCE :: "config \<Rightarrow> string" where
  "AUDIENCE cfg = ''api://'' @ fmt (AZURE_CLIENT_ID cfg)"

definition CACHE_TTL :: real where
  "CACHE_TTL = 3600"

text \<open>Python's \<^verbatim>\<open>not v\<close> on an optional string: true for \<^verbatim>\<open>None\<close> and for
  \<^verbatim>\<open>""\<close>.\<close>

definition falsy :: "'a list option \<Rightarrow> bool" where
  "falsy v = (case v of None \<Rightarrow> True | Some x \<Rightarrow> x = [])"

subsection \<open>get_signing_keys\<close>

text \<open>Lines 67-84: the fetch, the cache update, and the translation of a failed fetch.
  The expiry stored on line 75 is the float sum of the clock reading and the lifetime.\<close>

definition fetch_signing_keys :: "config \<Rightarrow> env \<Rightarrow> real \<Rightarrow> state \<Rightarrow> (exn + jwks) \<times> state" where
  "fetch_signing_keys cfg env current_time s =
     (let s1 = log_event (Requests_get (JWKS_URL cfg)) s in
      case requests_get env (JWKS_URL cfg) (http_calls (trace s)) of
        RequestException \<Rightarrow>
          (Inl (HTTPException 503 ''Service unavailable - unable to fetch signing keys''), s1)
      | Response keys \<Rightarrow>
          (Inr keys, s1\<lparr>cache_keys := Some keys, cache_expires_at := float_add env current_time CACHE_TTL\<rparr>))"

text \<open>Lines 59-65: the clock is read, and the cached document is returned when it is
  true as a Python value and the clock is before the expiry.\<close>

definition get_signing_keys :: "config \<Rightarrow> env \<Rightarrow> state \<Rightarrow> (exn + jwks) \<times> state" where
  "get_signing_keys cfg env s =
     (let current_time = time_time env (time_calls (trace s));
          s1 = log_event Time_time s
      in case cache_keys s1 of
           None \<Rightarrow> fetch_signing_keys cfg env current_time s1
         | Some keys \<Rightarrow>
             if keys \<noteq> [] \<and> current_time < cache_expires_at s1 then (Inr keys, s1)
             else fetch_signing_keys cfg env current_time s1)"

subsection \<open>verify_token\<close>

text \<open>\<^verbatim>\<open>jwks.get("keys", [])\<close>.\<close>

definition jwks_keys :: "jwks \<Rightarrow> jwk list" where
  "jwks_keys jwks = (case map_of jwks ''keys'' of None \<Rightarrow> [] | Some ks \<Rightarrow> ks)"

text \<open>The loop of lines 130-133 and 142-145; the third argument is the value of
  \<^verbatim>\<open>signing_key\<close> before the loop, which it keeps when no key matches.\<close>

fun scan_keys :: "jwk list \<Rightarrow> string \<Rightarrow> jwk option \<Rightarrow> jwk option" where
  "scan_keys [] key_id signing_key = signing_key"
| "scan_keys (key # rest) key_id signing_key =
     (if map_of key ''kid'' = Some key_id then Some key else scan_keys rest key_id signing_key)"

text \<open>Lines 135-152: the cache is cleared, the key set is requested again and scanned again.\<close>

definition refresh_signing_key ::
  "config \<Rightarrow> env \<Rightarrow> string \<Rightarrow> jwk option \<Rightarrow> state \<Rightarrow> (exn + jwk) \<times> state" where
  "refresh_signing_key cfg env key_id signing_key s =
     (let s1 = log_event Cache_invalidate (s\<lparr>cache_keys := None, cache_expires_at := 0\<rparr>) in
      case get_signing_keys cfg env s1 of
        (Inl e, s2) \<Rightarrow> (Inl e, s2)
      | (Inr jwks, s2) \<Rightarrow>
          (case scan_keys (jwks_keys jwks) key_id signing_key of
             None \<Rightarrow> (Inl (HTTPException 401 ''Invalid token signature''), s2)
           | Some k \<Rightarrow>
               if k = [] then (Inl (HTTPException 401 ''Invalid token signature''), s2)
               else (Inr k, s2)))"

text \<open>Lines 114-152: the key set is requested, then the header is read, then the key is
  looked up.\<close>

definition lookup_signing_key :: "config \<Rightarrow> env \<Rightarrow> string \<Rightarrow> state \<Rightarrow> (exn + jwk) \<times> state" where
  "lookup_signing_key cfg env token s =
     (case get_signing_keys cfg env s of
        (Inl e, s1) \<Rightarrow> (Inl e, s1)
      | (Inr jwks, s1) \<Rightarrow>
          (let s2 = log_event (Get_unverified_header token) s1 in
           case get_unverified_header env token of
             Inl e \<Rightarrow> (Inl e, s2)
           | Inr unverified_header \<Rightarrow>
               (let key_id = map_of unverified_header ''kid'' in
                case key_id of
                  None \<Rightarrow> (Inl (HTTPException 401 ''Invalid token format''), s2)
                | Some kid \<Rightarrow>
                    if kid = [] then (Inl (HTTPException 401 ''Invalid token format''), s2)
                    else
                      (case scan_keys (jwks_keys jwks) kid None of
                         None \<Rightarrow> refresh_signing_key cfg env kid None s2
                       | Some k \<Rightarrow>
                           if k = [] then refresh_signing_key cfg env kid (Some k) s2
                           else (Inr k, s2)))))"

definition unverified_options :: options where
  "unverified_options =
     [(''verify_signature'', False), (''verify_exp'', False), (''verify_aud'', False)]"

definition verified_options :: options where
  "verified_options = [(''verify_signature'', True), (''verify_exp'', True)]"

text \<open>Lines 181-192: the decode whose payload is returned.\<close>

definition verified_decode ::
  "config \<Rightarrow> env \<Rightarrow> string \<Rightarrow> jwk \<Rightarrow> string \<Rightarrow> state \<Rightarrow> (exn + claims) \<times> state" where
  "verified_decode cfg env token signing_key expected_issuer s =
     (let s1 = log_event (Jwt_decode token signing_key [''RS256''] (Some (AUDIENCE cfg))
                           (Some expected_issuer) verified_options) s in
      case jwt_decode env token signing_key [''RS256''] (Some (AUDIENCE cfg))
             (Some expected_issuer) verified_options of
        Inl e \<Rightarrow> (Inl e, s1)
      | Inr payload \<Rightarrow> (Inr payload, s1))"

text \<open>Lines 154-192: the decode without verification, the choice of the issuer, the
  verified decode. The logging of lines 175-179 changes nothing and is left out.\<close>

definition decode_token ::
  "config \<Rightarrow> env \<Rightarrow> string \<Rightarrow> jwk \<Rightarrow> state \<Rightarrow> (exn + claims) \<times> state" where
  "decode_token cfg env token signing_key s =
     (let s1 = log_event (Jwt_decode token signing_key [''RS256''] None None
                           unverified_options) s in
      case jwt_decode env token signing_key [''RS256''] None None unverified_options of
        Inl e \<Rightarrow> (Inl e, s1)
      | Inr unverified_payload \<Rightarrow>
          (let token_issuer = map_of unverified_payload ''iss'' in
           if token_issuer = Some (ISSUER_V1 cfg)
             then verified_decode cfg env token signing_key (ISSUER_V1 cfg) s1
           else if token_issuer = Some (ISSUER_V2 cfg)
             then verified_decode cfg env token signing_key (ISSUER_V2 cfg) s1
           else (Inl (HTTPException 401 ''Invalid token issuer''), s1)))"

text \<open>The body of the \<^verbatim>\<open>try\<close> statement, lines 114-192.\<close>

definition verify_token_try ::
  "config \<Rightarrow> env \<Rightarrow> string \<Rightarrow> state \<Rightarrow> (exn + claims) \<times> state" where
  "verify_token_try cfg env token s =
     (case lookup_signing_key cfg env token s of
        (Inl e, s1) \<Rightarrow> (Inl e, s1)
      | (Inr signing_key, s1) \<Rightarrow> decode_token cfg env token signing_key s1)"

text \<open>The two \<^verbatim>\<open>except\<close> clauses, lines 194-205, in their order: a
  \<^verbatim>\<open>JWTError\<close> first, then any \<^verbatim>\<open>Exception\<close>. \<^verbatim>\<open>HTTPException\<close> is not a
  \<^verbatim>\<open>JWTError\<close>, so the second clause takes it.\<close>

fun handler :: "exn \<Rightarrow> exn" where
  "handler JWTError = HTTPException 401 ''Invalid or expired token''"
| "handler e = HTTPException 401 ''Authentication failed''"

text \<open>Lines 106-205.\<close>

definition verify_token :: "config \<Rightarrow> env \<Rightarrow> string \<Rightarrow> state \<Rightarrow> (exn + claims) \<times> state" where
  "verify_token cfg env token s =
     (if falsy (AZURE_TENANT_ID cfg) \<or> falsy (AZURE_CLIENT_ID cfg)
      then (Inl (HTTPException 500 ''Server configuration error - Azure AD not configured''), s)
      else case verify_token_try cfg env token s of
             (Inl e, s1) \<Rightarrow> (Inl (handler e), s1)
           | (Inr payload, s1) \<Rightarrow> (Inr payload, s1))"

subsection \<open>The events of one call\<close>

definition new_events :: "state \<Rightarrow> state \<Rightarrow> event list" where
  "new_events s s' = drop (length (trace s)) (trace s')"

subsection \<open>Example worlds\<close>

text \<open>
  Tenant \<^verbatim>\<open>T1\<close>, client \<^verbatim>\<open>C1\<close>. The endpoint publishes key \<^verbatim>\<open>K0\<close> on the first
  request and keys \<^verbatim>\<open>K0\<close>, \<^verbatim>\<open>K1\<close> from the second request on. The first two
  characters of a token are the key identifier in its header; the library stand-ins
  accept a token when it is decoded with the key it names, \<^verbatim>\<open>RS256\<close>, the audience
  of \<^verbatim>\<open>C1\<close> and the issuer it carries. Key \<^verbatim>\<open>K1\<close> declares the algorithm
  \<^verbatim>\<open>RS384\<close>.
\<close>

text \<open>
  The float addition of the example worlds: the sum rounded to the nearest double, ties to
  the even significand (IEEE 754 binary64, 53 significant bits, least exponent
  \<open>- 1022\<close>). Overflow to infinity is left out; the sums of the example worlds are far
  below it.
\<close>

definition round_half_even :: "real \<Rightarrow> int" where
  "round_half_even q =
     (let f = \<lfloor>q\<rfloor>; d = q - of_int f in
      if d < 1 / 2 then f else if 1 / 2 < d then f + 1 else if even f then f else f + 1)"

text \<open>For \<open>a > 0\<close>: the exponent \<open>e\<close> with \<open>2 ^ e \<le> a < 2 ^ (e + 1)\<close>, and
  \<open>- 1022\<close> below the normal range.\<close>

definition binary64_exponent :: "real \<Rightarrow> int" where
  "binary64_exponent a =
     (if 1 \<le> a then bitlen \<lfloor>a\<rfloor> - 1 else max (- 1022) (- bitlen (\<lceil>1 / a\<rceil> - 1)))"

definition binary64_round :: "real \<Rightarrow> real" where
  "binary64_round a =
     (if a = 0 then 0
      else let e = binary64_exponent \<bar>a\<bar> in
        sgn a * of_int (round_half_even (\<bar>a\<bar> * 2 powi (52 - e))) * 2 powi (e - 52))"

definition binary64_add :: "real \<Rightarrow> real \<Rightarrow> real" where
  "binary64_add x y = binary64_round (x + y)"

definition cfg_ex :: config where
  "cfg_ex = \<lparr>AZURE_TENANT_ID = Some ''T1'', AZURE_CLIENT_ID = Some ''C1''\<rparr>"

definition cfg_unset :: config where
  "cfg_unset = \<lparr>AZURE_TENANT_ID = None, AZURE_CLIENT_ID = Some ''C1''\<rparr>"

definition key_K0 :: jwk where
  "key_K0 = [(''kid'', ''K0''), (''kty'', ''RSA'')]"

definition key_K1 :: jwk where
  "key_K1 = [(''kid'', ''K1''), (''kty'', ''RSA''), (''alg'', ''RS384'')]"

definition header_ex :: "string \<Rightarrow> exn + header" where
  "header_ex token =
     (if token = ''nokid'' then Inr [(''alg'', ''RS256'')]
      else if token = ''garbage'' then Inl JWTError
      else Inr [(''alg'', ''RS256''), (''kid'', take 2 token)])"

definition issuer_ex :: "string \<Rightarrow> string" where
  "issuer_ex token =
     (if token = ''K0'' then ISSUER_V2 cfg_ex
      else if token = ''K1-foreign'' then ''https://issuer.example/''
      else ISSUER_V1 cfg_ex)"

definition decode_ex ::
  "string \<Rightarrow> jwk \<Rightarrow> string list \<Rightarrow> string option \<Rightarrow> string option \<Rightarrow> options \<Rightarrow> exn + claims" where
  "decode_ex token key algs aud iss opts =
     (if map_of opts ''verify_signature'' = Some False
      then Inr [(''iss'', issuer_ex token), (''name'', ''unverified'')]
      else if map_of key ''kid'' = Some (take 2 token) \<and> algs = [''RS256'']
              \<and> aud = Some (AUDIENCE cfg_ex) \<and> iss = Some (issuer_ex token)
      then Inr [(''iss'', issuer_ex token), (''name'', ''verified'')]
      else Inl JWTError)"

definition env_rotating :: env where
  "env_rotating =
     \<lparr>time_time = (\<lambda>n. 1000 + real n),
      float_add = binary64_add,
      requests_get = (\<lambda>url n. if n = 0 then Response [(''keys'', [key_K0])]
                               else Response [(''keys'', [key_K0, key_K1])]),
      get_unverified_header = header_ex,
      jwt_decode = decode_ex\<rparr>"

text \<open>The endpoint is down.\<close>

definition env_down :: env where
  "env_down =
     \<lparr>time_time = (\<lambda>n. 1000 + real n),
      float_add = binary64_add,
      requests_get = (\<lambda>url n. RequestException),
      get_unverified_header = header_ex,
      jwt_decode = decode_ex\<rparr>"

text \<open>The clock reads the double \<^verbatim>\<open>2147480048.0000002\<close>, which is
  \<open>2147480048 + 2 ^ - 22\<close>, and then \<^verbatim>\<open>2147483648.0\<close>, which is \<open>2 ^ 31\<close>.\<close>

definition tie_time :: real where
  "tie_time = 2147480048 + 1 / 4194304"

definition env_tie :: env where
  "env_tie =
     \<lparr>time_time = (\<lambda>n. if n = 0 then tie_time else 2147483648),
      float_add = binary64_add,
      requests_get = (\<lambda>url n. Response [(''keys'', [key_K0])]),
      get_unverified_header = header_ex,
      jwt_decode = decode_ex\<rparr>"

text \<open>A cache that holds keys \<^verbatim>\<open>K0\<close>, \<^verbatim>\<open>K1\<close>, fetched at time 1000.\<close>

definition warm_state :: state where
  "warm_state =
     \<lparr>cache_keys = Some [(''keys'', [key_K0, key_K1])], cache_expires_at = 4600,
      trace = []\<rparr>"

text \<open>A cache that holds key \<^verbatim>\<open>K0\<close> and expired at time 900.\<close>

definition stale_state :: state where
  "stale_state =
     \<lparr>cache_keys = Some [(''keys'', [key_K0])], cache_expires_at = 900, trace = []\<rparr>"

text \<open>The sums the example worlds compute.\<close>

lemma binary64_add_examples:
  "binary64_add 1000 3600 = 4600"
  "binary64_add 1001 3600 = 4601"
  "binary64_add (- 2700) 3600 = 900"
  "binary64_add tie_time 3600 = 2147483648"
  "binary64_add 2147483648 3600 = 2147487248"
  by code_simp+

lemmas model_defs =
  verify_token_def verify_token_try_def lookup_signing_key_def refresh_signing_key_def
  decode_token_def verified_decode_def get_signing_keys_def fetch_signing_keys_def
  jwks_keys_def falsy_def log_event_def time_calls_def http_calls_def new_events_def
  JWKS_URL_def ISSUER_V1_def ISSUER_V2_def AUDIENCE_def CACHE_TTL_def fmt_def
  unverified_options_def verified_options_def initial_state_def

lemmas example_defs =
  cfg_ex_def cfg_unset_def key_K0_def key_K1_def header_ex_def issuer_ex_def decode_ex_def
  env_rotating_def env_down_def env_tie_def warm_state_def stale_state_def
  binary64_add_examples

section \<open>Properties\<close>

subsection \<open>Auxiliary facts\<close>

lemma scan_keys_None_iff:
  "scan_keys ks kid None = None \<longleftrightarrow> (\<forall>k\<in>set ks. map_of k ''kid'' \<noteq> Some kid)"
  by (induction ks) auto

lemma scan_keys_Some:
  "scan_keys ks kid None = Some k \<Longrightarrow> k \<in> set ks \<and> map_of k ''kid'' = Some kid \<and> k \<noteq> []"
  by (induction ks) (auto split: if_splits)

lemma get_signing_keys_trace:
  "get_signing_keys cfg env s = (r, s') \<Longrightarrow>
   trace s' = trace s @ [Time_time] \<or>
   trace s' = trace s @ [Time_time, Requests_get (JWKS_URL cfg)]"
  by (auto simp: get_signing_keys_def fetch_signing_keys_def log_event_def Let_def
      split: option.splits if_splits http_result.splits)

lemma get_signing_keys_raises:
  "get_signing_keys cfg env s = (Inl e, s') \<Longrightarrow>
   e = HTTPException 503 ''Service unavailable - unable to fetch signing keys'' \<and>
   cache_keys s' = cache_keys s \<and> cache_expires_at s' = cache_expires_at s \<and>
   trace s' = trace s @ [Time_time, Requests_get (JWKS_URL cfg)]"
  by (auto simp: get_signing_keys_def fetch_signing_keys_def log_event_def Let_def
      split: option.splits if_splits http_result.splits)

lemma get_signing_keys_invalidated:
  "cache_keys s = None \<Longrightarrow>
   get_signing_keys cfg env s =
     (case requests_get env (JWKS_URL cfg) (http_calls (trace s)) of
        RequestException \<Rightarrow>
          (Inl (HTTPException 503 ''Service unavailable - unable to fetch signing keys''),
           s\<lparr>trace := trace s @ [Time_time, Requests_get (JWKS_URL cfg)]\<rparr>)
      | Response keys \<Rightarrow>
          (Inr keys,
           s\<lparr>cache_keys := Some keys,
             cache_expires_at := float_add env (time_time env (time_calls (trace s))) CACHE_TTL,
             trace := trace s @ [Time_time, Requests_get (JWKS_URL cfg)]\<rparr>))"
  by (simp add: get_signing_keys_def fetch_signing_keys_def log_event_def time_calls_def
      http_calls_def Let_def split: http_result.splits)

lemma refresh_signing_key_eq:
  "refresh_signing_key cfg env kid None s =
     (case requests_get env (JWKS_URL cfg) (http_calls (trace s)) of
        RequestException \<Rightarrow>
          (Inl (HTTPException 503 ''Service unavailable - unable to fetch signing keys''),
           \<lparr>cache_keys = None, cache_expires_at = 0,
            trace = trace s @ [Cache_invalidate, Time_time, Requests_get (JWKS_URL cfg)]\<rparr>)
      | Response keys \<Rightarrow>
          (case scan_keys (jwks_keys keys) kid None of
             None \<Rightarrow> Inl (HTTPException 401 ''Invalid token signature'')
           | Some k \<Rightarrow> Inr k,
           \<lparr>cache_keys = Some keys,
            cache_expires_at = float_add env (time_time env (time_calls (trace s))) CACHE_TTL,
            trace = trace s @ [Cache_invalidate, Time_time, Requests_get (JWKS_URL cfg)]\<rparr>))"
  unfolding refresh_signing_key_def
  by (auto simp: get_signing_keys_invalidated log_event_def time_calls_def http_calls_def Let_def
      split: http_result.splits option.splits dest: scan_keys_Some)

text \<open>With a header that carries a key identifier, the lookup is the first scan and, when
  it finds nothing, the refresh.\<close>

lemma lookup_signing_key_eq:
  assumes "get_signing_keys cfg env s = (Inr jwks0, s1)"
    and "get_unverified_header env token = Inr h"
    and "map_of h ''kid'' = Some kid" and "kid \<noteq> []"
  shows "lookup_signing_key cfg env token s =
     (case scan_keys (jwks_keys jwks0) kid None of
        None \<Rightarrow> refresh_signing_key cfg env kid None (log_event (Get_unverified_header token) s1)
      | Some k \<Rightarrow> (Inr k, log_event (Get_unverified_header token) s1))"
  using assms
  by (auto simp: lookup_signing_key_def Let_def split: option.splits dest: scan_keys_Some)

text \<open>The lookup makes no call of \<^verbatim>\<open>jwt.decode\<close>.\<close>

lemma refresh_signing_key_events:
  "refresh_signing_key cfg env kid sk s = (r, s') \<Longrightarrow>
   \<exists>evs. trace s' = trace s @ evs \<and>
     set evs \<subseteq> {Time_time, Requests_get (JWKS_URL cfg), Cache_invalidate}"
  unfolding refresh_signing_key_def Let_def
  by (auto simp: log_event_def split: prod.splits sum.splits option.splits if_splits
      dest!: get_signing_keys_trace)

lemma lookup_signing_key_events:
  "lookup_signing_key cfg env token s = (r, s') \<Longrightarrow>
   \<exists>evs. trace s' = trace s @ evs \<and>
     set evs \<subseteq> {Time_time, Requests_get (JWKS_URL cfg), Cache_invalidate,
                 Get_unverified_header token}"
  unfolding lookup_signing_key_def Let_def
  by (auto simp: log_event_def split: prod.splits sum.splits option.splits if_splits
      dest!: get_signing_keys_trace refresh_signing_key_events)


subsection \<open>Configuration\<close>

text \<open>
  C7. When the tenant identifier or the client identifier is unset (\<^verbatim>\<open>None\<close>, or the
  empty string, which the source's \<^verbatim>\<open>not\<close> treats alike), \<^verbatim>\<open>verify_token\<close> raises
  the status-500 configuration error for every token, from every state and in every
  world. The state it leaves is the state it was given: no clock read, no network
  request, no library call was made, and no claims are returned.
\<close>

theorem config_error_fails_closed:
  assumes "falsy (AZURE_TENANT_ID cfg) \<or> falsy (AZURE_CLIENT_ID cfg)"
  shows "verify_token cfg env token s =
           (Inl (HTTPException 500 ''Server configuration error - Azure AD not configured''), s)
         \<and> new_events s (snd (verify_token cfg env token s)) = []"
  using assms by (auto simp: verify_token_def new_events_def)

theorem config_error_fails_closed_witness:
  "falsy (AZURE_TENANT_ID cfg_unset) \<and>
   verify_token cfg_unset env_rotating ''K0'' warm_state =
     (Inl (HTTPException 500 ''Server configuration error - Azure AD not configured''),
      warm_state) \<and>
   fst (verify_token cfg_ex env_rotating ''K0'' warm_state) =
     Inr [(''iss'', ISSUER_V2 cfg_ex), (''name'', ''verified'')]"
proof -
  have unset: "falsy (AZURE_TENANT_ID cfg_unset) \<or> falsy (AZURE_CLIENT_ID cfg_unset)"
    by (simp add: cfg_unset_def falsy_def)
  have "fst (verify_token cfg_ex env_rotating ''K0'' warm_state) =
     Inr [(''iss'', ISSUER_V2 cfg_ex), (''name'', ''verified'')]"
    by (simp add: model_defs example_defs)
  with config_error_fails_closed [OF unset, of env_rotating "''K0''" warm_state]
  show ?thesis by (simp add: cfg_unset_def falsy_def)
qed

subsection \<open>The exception handlers\<close>

text \<open>
  C10. With the configuration set, whatever the body of the \<^verbatim>\<open>try\<close> statement raises
  that is not a \<^verbatim>\<open>JWTError\<close> leaves \<^verbatim>\<open>verify_token\<close> as
  \<^verbatim>\<open>HTTPException(401, "Authentication failed")\<close>; this covers the 503 of a failed key
  fetch and the 401s raised for a missing key identifier, an unknown signing key and an
  unknown issuer. Every exception \<^verbatim>\<open>verify_token\<close> raises is that one, the 401
  \<^verbatim>\<open>"Invalid or expired token"\<close> of the \<^verbatim>\<open>JWTError\<close> clause, or the status-500
  configuration error, which is raised only when an identifier is unset and before any
  effect.
\<close>

theorem generic_handler_relabels:
  "(\<not> falsy (AZURE_TENANT_ID cfg) \<and> \<not> falsy (AZURE_CLIENT_ID cfg) \<and>
    verify_token_try cfg env token s = (Inl e, s') \<and> e \<noteq> JWTError \<longrightarrow>
      verify_token cfg env token s = (Inl (HTTPException 401 ''Authentication failed''), s'))
   \<and> (verify_token cfg env token s = (Inl x, s'') \<longrightarrow>
        x = HTTPException 401 ''Authentication failed'' \<or>
        x = HTTPException 401 ''Invalid or expired token'' \<or>
        x = HTTPException 500 ''Server configuration error - Azure AD not configured'' \<and>
          (falsy (AZURE_TENANT_ID cfg) \<or> falsy (AZURE_CLIENT_ID cfg)) \<and> s'' = s)"
proof (intro conjI impI)
  assume "\<not> falsy (AZURE_TENANT_ID cfg) \<and> \<not> falsy (AZURE_CLIENT_ID cfg) \<and>
    verify_token_try cfg env token s = (Inl e, s') \<and> e \<noteq> JWTError"
  then show "verify_token cfg env token s = (Inl (HTTPException 401 ''Authentication failed''), s')"
    by (cases e) (simp_all add: verify_token_def)
next
  assume raised: "verify_token cfg env token s = (Inl x, s'')"
  show "x = HTTPException 401 ''Authentication failed'' \<or>
        x = HTTPException 401 ''Invalid or expired token'' \<or>
        x = HTTPException 500 ''Server configuration error - Azure AD not configured'' \<and>
          (falsy (AZURE_TENANT_ID cfg) \<or> falsy (AZURE_CLIENT_ID cfg)) \<and> s'' = s"
  proof (cases "falsy (AZURE_TENANT_ID cfg) \<or> falsy (AZURE_CLIENT_ID cfg)")
    case True
    with raised show ?thesis by (auto simp: verify_token_def)
  next
    case False
    obtain r s1 where body: "verify_token_try cfg env token s = (r, s1)"
      by (cases "verify_token_try cfg env token s")
    with raised False obtain e where "r = Inl e" and "x = handler e"
      by (cases r) (auto simp: verify_token_def)
    then show ?thesis by (cases e) simp_all
  qed
qed

theorem generic_handler_relabels_witness:
  "verify_token_try cfg_ex env_down ''K0'' initial_state =
     (Inl (HTTPException 503 ''Service unavailable - unable to fetch signing keys''),
      \<lparr>cache_keys = None, cache_expires_at = 0,
       trace = [Time_time, Requests_get (JWKS_URL cfg_ex)]\<rparr>) \<and>
   verify_token cfg_ex env_down ''K0'' initial_state =
     (Inl (HTTPException 401 ''Authentication failed''),
      \<lparr>cache_keys = None, cache_expires_at = 0,
       trace = [Time_time, Requests_get (JWKS_URL cfg_ex)]\<rparr>) \<and>
   fst (verify_token_try cfg_ex env_rotating ''nokid'' warm_state) =
     Inl (HTTPException 401 ''Invalid token format'') \<and>
   fst (verify_token cfg_ex env_rotating ''nokid'' warm_state) =
     Inl (HTTPException 401 ''Authentication failed'') \<and>
   fst (verify_token cfg_unset env_down ''K0'' initial_state) =
     Inl (HTTPException 500 ''Server configuration error - Azure AD not configured'') \<and>
   (falsy (AZURE_TENANT_ID cfg_unset) \<or> falsy (AZURE_CLIENT_ID cfg_unset))"
proof -
  let ?s = "\<lparr>cache_keys = None, cache_expires_at = 0,
             trace = [Time_time, Requests_get (JWKS_URL cfg_ex)]\<rparr>"
  have body: "verify_token_try cfg_ex env_down ''K0'' initial_state =
     (Inl (HTTPException 503 ''Service unavailable - unable to fetch signing keys''), ?s)"
    by (simp add: model_defs example_defs)
  have cfg: "\<not> falsy (AZURE_TENANT_ID cfg_ex) \<and> \<not> falsy (AZURE_CLIENT_ID cfg_ex)"
    by (simp add: cfg_ex_def falsy_def)
  have outer: "verify_token cfg_ex env_down ''K0'' initial_state =
     (Inl (HTTPException 401 ''Authentication failed''), ?s)"
    using generic_handler_relabels
      [of cfg_ex env_down "''K0''" initial_state
          "HTTPException 503 ''Service unavailable - unable to fetch signing keys''" ?s]
      cfg body by simp
  have unset: "verify_token cfg_unset env_down ''K0'' initial_state =
     (Inl (HTTPException 500 ''Server configuration error - Azure AD not configured''),
      initial_state)"
    by (simp add: model_defs example_defs)
  have escapes: "falsy (AZURE_TENANT_ID cfg_unset) \<or> falsy (AZURE_CLIENT_ID cfg_unset)"
    using generic_handler_relabels
      [of cfg_unset env_down "''K0''" initial_state _ _
          "HTTPException 500 ''Server configuration error - Azure AD not configured''"
          initial_state]
      unset by simp
  have "fst (verify_token_try cfg_ex env_rotating ''nokid'' warm_state) =
     Inl (HTTPException 401 ''Invalid token format'')"
    and "fst (verify_token cfg_ex env_rotating ''nokid'' warm_state) =
     Inl (HTTPException 401 ''Authentication failed'')"
    by (simp_all add: model_defs example_defs)
  with body outer unset escapes show ?thesis by simp
qed

subsection \<open>A failed key fetch\<close>

text \<open>
  C1. With the configuration set, an empty cache and the endpoint down,
  \<^verbatim>\<open>get_signing_keys\<close> raises \<^verbatim>\<open>HTTPException(503, ...)\<close>, and \<^verbatim>\<open>verify_token\<close>
  gives its caller \<^verbatim>\<open>HTTPException(401, "Authentication failed")\<close>: the 503 is raised
  inside the \<^verbatim>\<open>try\<close> statement and the clause for \<^verbatim>\<open>Exception\<close> replaces it.
\<close>

theorem fetch_failure_surfaces_as_401:
  "fst (get_signing_keys cfg_ex env_down initial_state) =
     Inl (HTTPException 503 ''Service unavailable - unable to fetch signing keys'') \<and>
   fst (verify_token cfg_ex env_down ''K0'' initial_state) =
     Inl (HTTPException 401 ''Authentication failed'')"
  by (simp add: model_defs example_defs)

subsection \<open>Issuer selection\<close>

lemma scan_keys_find:
  "scan_keys ks kid None = find (\<lambda>k. map_of k ''kid'' = Some kid) ks"
  by (induction ks) auto

text \<open>The decode stage after the key has been chosen.\<close>

lemma decode_token_accepted:
  assumes "jwt_decode env token key [''RS256''] None None unverified_options = Inr u"
    and "map_of u ''iss'' = Some iss"
    and "iss = ISSUER_V1 cfg \<or> iss = ISSUER_V2 cfg"
  shows "decode_token cfg env token key s =
     (jwt_decode env token key [''RS256''] (Some (AUDIENCE cfg)) (Some iss) verified_options,
      s\<lparr>trace := trace s @
         [Jwt_decode token key [''RS256''] None None unverified_options,
          Jwt_decode token key [''RS256''] (Some (AUDIENCE cfg)) (Some iss) verified_options]\<rparr>)"
  using assms
  by (auto simp: decode_token_def verified_decode_def log_event_def Let_def split: sum.splits)

lemma decode_token_foreign:
  assumes "jwt_decode env token key [''RS256''] None None unverified_options = Inr u"
    and "map_of u ''iss'' \<noteq> Some (ISSUER_V1 cfg)"
    and "map_of u ''iss'' \<noteq> Some (ISSUER_V2 cfg)"
  shows "decode_token cfg env token key s =
     (Inl (HTTPException 401 ''Invalid token issuer''),
      s\<lparr>trace := trace s @ [Jwt_decode token key [''RS256''] None None unverified_options]\<rparr>)"
  using assms by (simp add: decode_token_def log_event_def Let_def)

text \<open>
  C2. Let the key lookup of a verification attempt have chosen a key, and let the
  unverified decode return a payload. If the payload's issuer is one of the two accepted
  issuer strings and the verified decode (signature, expiry, audience, that issuer)
  accepts the token, \<^verbatim>\<open>verify_token\<close> returns the verified payload. If the payload's
  issuer is anything else, the \<^verbatim>\<open>try\<close> body raises the 401
  \<^verbatim>\<open>"Invalid token issuer"\<close>, the caller receives a 401, and the attempt has made
  no signature-verifying call of \<^verbatim>\<open>jwt.decode\<close>.
\<close>

theorem issuer_selection:
  assumes cfg: "\<not> falsy (AZURE_TENANT_ID cfg)" "\<not> falsy (AZURE_CLIENT_ID cfg)"
    and key: "lookup_signing_key cfg env token s = (Inr key, s1)"
    and peek: "jwt_decode env token key [''RS256''] None None unverified_options = Inr u"
  shows "((map_of u ''iss'' = Some (ISSUER_V1 cfg) \<or> map_of u ''iss'' = Some (ISSUER_V2 cfg)) \<and>
          jwt_decode env token key [''RS256''] (Some (AUDIENCE cfg)) (map_of u ''iss'')
            verified_options = Inr p \<longrightarrow>
            verify_token cfg env token s =
              (Inr p, s1\<lparr>trace := trace s1 @
                 [Jwt_decode token key [''RS256''] None None unverified_options,
                  Jwt_decode token key [''RS256''] (Some (AUDIENCE cfg)) (map_of u ''iss'')
                    verified_options]\<rparr>))
       \<and> (map_of u ''iss'' \<noteq> Some (ISSUER_V1 cfg) \<and> map_of u ''iss'' \<noteq> Some (ISSUER_V2 cfg) \<longrightarrow>
            verify_token_try cfg env token s =
              (Inl (HTTPException 401 ''Invalid token issuer''),
               s1\<lparr>trace := trace s1 @
                 [Jwt_decode token key [''RS256''] None None unverified_options]\<rparr>) \<and>
            verify_token cfg env token s =
              (Inl (HTTPException 401 ''Authentication failed''),
               s1\<lparr>trace := trace s1 @
                 [Jwt_decode token key [''RS256''] None None unverified_options]\<rparr>) \<and>
            filter is_verified_decode (new_events s (snd (verify_token cfg env token s))) = [])"
    (is "(?ok \<longrightarrow> ?accept) \<and> (?foreign \<longrightarrow> ?reject)")
proof -
  have accepted: ?accept if ok: ?ok
  proof -
    from ok obtain iss where iss: "map_of u ''iss'' = Some iss"
      "iss = ISSUER_V1 cfg \<or> iss = ISSUER_V2 cfg" by auto
    from ok cfg key show ?thesis
      by (simp add: verify_token_def verify_token_try_def
          decode_token_accepted [OF peek iss] iss(1))
  qed
  have rejected: ?reject if foreign: ?foreign
  proof -
    let ?s2 = "s1\<lparr>trace := trace s1 @
      [Jwt_decode token key [''RS256''] None None unverified_options]\<rparr>"
    from foreign have dec: "decode_token cfg env token key s1 =
        (Inl (HTTPException 401 ''Invalid token issuer''), ?s2)"
      using decode_token_foreign [OF peek] by simp
    with key have body: "verify_token_try cfg env token s =
        (Inl (HTTPException 401 ''Invalid token issuer''), ?s2)"
      by (simp add: verify_token_try_def)
    with cfg have outer: "verify_token cfg env token s =
        (Inl (HTTPException 401 ''Authentication failed''), ?s2)"
      by (simp add: verify_token_def)
    from lookup_signing_key_events [OF key] obtain evs where
      evs: "trace s1 = trace s @ evs"
        "set evs \<subseteq> {Time_time, Requests_get (JWKS_URL cfg), Cache_invalidate,
                    Get_unverified_header token}" by blast
    from evs(2) have "filter is_verified_decode evs = []"
      by (auto simp: filter_empty_conv)
    with evs(1) outer have "filter is_verified_decode
        (new_events s (snd (verify_token cfg env token s))) = []"
      by (simp add: new_events_def unverified_options_def)
    with body outer show ?thesis by simp
  qed
  from accepted rejected show ?thesis by blast
qed

theorem issuer_selection_witness:
  "verify_token cfg_ex env_rotating ''K0'' warm_state =
     (Inr [(''iss'', ISSUER_V2 cfg_ex), (''name'', ''verified'')],
      warm_state\<lparr>trace :=
        [Time_time, Get_unverified_header ''K0'',
         Jwt_decode ''K0'' key_K0 [''RS256''] None None unverified_options,
         Jwt_decode ''K0'' key_K0 [''RS256''] (Some (AUDIENCE cfg_ex)) (Some (ISSUER_V2 cfg_ex))
           verified_options]\<rparr>) \<and>
   verify_token_try cfg_ex env_rotating ''K1-foreign'' warm_state =
     (Inl (HTTPException 401 ''Invalid token issuer''),
      warm_state\<lparr>trace :=
        [Time_time, Get_unverified_header ''K1-foreign'',
         Jwt_decode ''K1-foreign'' key_K1 [''RS256''] None None unverified_options]\<rparr>) \<and>
   verify_token cfg_ex env_rotating ''K1-foreign'' warm_state =
     (Inl (HTTPException 401 ''Authentication failed''),
      warm_state\<lparr>trace :=
        [Time_time, Get_unverified_header ''K1-foreign'',
         Jwt_decode ''K1-foreign'' key_K1 [''RS256''] None None unverified_options]\<rparr>) \<and>
   filter is_verified_decode
     (new_events warm_state (snd (verify_token cfg_ex env_rotating ''K1-foreign'' warm_state))) = []"
proof -
  have cfg: "\<not> falsy (AZURE_TENANT_ID cfg_ex)" "\<not> falsy (AZURE_CLIENT_ID cfg_ex)"
    by (simp_all add: cfg_ex_def falsy_def)
  have key0: "lookup_signing_key cfg_ex env_rotating ''K0'' warm_state =
      (Inr key_K0, warm_state\<lparr>trace := [Time_time, Get_unverified_header ''K0'']\<rparr>)"
    by (simp add: model_defs example_defs)
  have peek0: "jwt_decode env_rotating ''K0'' key_K0 [''RS256''] None None unverified_options =
      Inr [(''iss'', ISSUER_V2 cfg_ex), (''name'', ''unverified'')]"
    by (simp add: model_defs example_defs)
  have valid0: "jwt_decode env_rotating ''K0'' key_K0 [''RS256''] (Some (AUDIENCE cfg_ex))
      (Some (ISSUER_V2 cfg_ex)) verified_options =
      Inr [(''iss'', ISSUER_V2 cfg_ex), (''name'', ''verified'')]"
    by (simp add: model_defs example_defs)
  have key1: "lookup_signing_key cfg_ex env_rotating ''K1-foreign'' warm_state =
      (Inr key_K1, warm_state\<lparr>trace := [Time_time, Get_unverified_header ''K1-foreign'']\<rparr>)"
    by (simp add: model_defs example_defs)
  have peek1: "jwt_decode env_rotating ''K1-foreign'' key_K1 [''RS256''] None None
      unverified_options = Inr [(''iss'', ''https://issuer.example/''), (''name'', ''unverified'')]"
    by (simp add: model_defs example_defs)
  have foreign: "''https://issuer.example/'' \<noteq> ISSUER_V1 cfg_ex"
    "''https://issuer.example/'' \<noteq> ISSUER_V2 cfg_ex"
    by (simp_all add: model_defs example_defs)
  from issuer_selection [OF cfg key0 peek0,
      of "[(''iss'', ISSUER_V2 cfg_ex), (''name'', ''verified'')]"] valid0
    issuer_selection [OF cfg key1 peek1] foreign
  show ?thesis by (simp add: warm_state_def new_events_def unverified_options_def)
qed

subsection \<open>Key lookup and refresh\<close>

text \<open>
  C3. Let the configuration be set, let the first request for the key set return a
  document, and let the token's header carry a key identifier that no key of that document
  has. When the refetch also returns a document without it, the \<^verbatim>\<open>try\<close> body raises
  the 401 \<^verbatim>\<open>"Invalid token signature"\<close> and the caller receives a 401. After the
  header was read the attempt has made exactly these calls: one cache invalidation, one
  clock read and one HTTP request; nothing follows them. The cache then holds the
  refetched document.
\<close>

theorem unknown_kid_one_refresh:
  assumes cfg: "\<not> falsy (AZURE_TENANT_ID cfg)" "\<not> falsy (AZURE_CLIENT_ID cfg)"
    and first: "get_signing_keys cfg env s = (Inr jwks0, s1)"
    and hdr: "get_unverified_header env token = Inr h" "map_of h ''kid'' = Some kid" "kid \<noteq> []"
    and absent0: "\<forall>k\<in>set (jwks_keys jwks0). map_of k ''kid'' \<noteq> Some kid"
    and refetch: "requests_get env (JWKS_URL cfg) (http_calls (trace s1)) = Response jwks1"
    and absent1: "\<forall>k\<in>set (jwks_keys jwks1). map_of k ''kid'' \<noteq> Some kid"
  shows "verify_token_try cfg env token s =
           (Inl (HTTPException 401 ''Invalid token signature''),
            \<lparr>cache_keys = Some jwks1,
             cache_expires_at = float_add env (time_time env (time_calls (trace s1))) 3600,
             trace = trace s1 @ [Get_unverified_header token, Cache_invalidate, Time_time,
                                 Requests_get (JWKS_URL cfg)]\<rparr>)
       \<and> verify_token cfg env token s =
           (Inl (HTTPException 401 ''Authentication failed''),
            \<lparr>cache_keys = Some jwks1,
             cache_expires_at = float_add env (time_time env (time_calls (trace s1))) 3600,
             trace = trace s1 @ [Get_unverified_header token, Cache_invalidate, Time_time,
                                 Requests_get (JWKS_URL cfg)]\<rparr>)"
proof -
  from absent0 have miss0: "scan_keys (jwks_keys jwks0) kid None = None"
    by (simp add: scan_keys_None_iff)
  from absent1 have miss1: "scan_keys (jwks_keys jwks1) kid None = None"
    by (simp add: scan_keys_None_iff)
  have lookup: "lookup_signing_key cfg env token s =
      refresh_signing_key cfg env kid None (log_event (Get_unverified_header token) s1)"
    by (simp add: lookup_signing_key_eq [OF first hdr] miss0)
  have "refresh_signing_key cfg env kid None (log_event (Get_unverified_header token) s1) =
      (Inl (HTTPException 401 ''Invalid token signature''),
       \<lparr>cache_keys = Some jwks1,
        cache_expires_at = float_add env (time_time env (time_calls (trace s1))) 3600,
        trace = trace s1 @ [Get_unverified_header token, Cache_invalidate, Time_time,
                            Requests_get (JWKS_URL cfg)]\<rparr>)"
    using refetch miss1
    by (simp add: refresh_signing_key_eq log_event_def http_calls_def time_calls_def
        CACHE_TTL_def)
  with lookup have body: "verify_token_try cfg env token s =
      (Inl (HTTPException 401 ''Invalid token signature''),
       \<lparr>cache_keys = Some jwks1,
        cache_expires_at = float_add env (time_time env (time_calls (trace s1))) 3600,
        trace = trace s1 @ [Get_unverified_header token, Cache_invalidate, Time_time,
                            Requests_get (JWKS_URL cfg)]\<rparr>)"
    by (simp add: verify_token_try_def)
  with cfg show ?thesis by (simp add: verify_token_def)
qed

theorem unknown_kid_one_refresh_witness:
  "verify_token cfg_ex env_rotating ''K2'' warm_state =
     (Inl (HTTPException 401 ''Authentication failed''),
      \<lparr>cache_keys = Some [(''keys'', [key_K0])], cache_expires_at = 4601,
       trace = [Time_time, Get_unverified_header ''K2'', Cache_invalidate, Time_time,
                Requests_get (JWKS_URL cfg_ex)]\<rparr>) \<and>
   fst (verify_token_try cfg_ex env_rotating ''K2'' warm_state) =
     Inl (HTTPException 401 ''Invalid token signature'')"
proof -
  have cfg: "\<not> falsy (AZURE_TENANT_ID cfg_ex)" "\<not> falsy (AZURE_CLIENT_ID cfg_ex)"
    by (simp_all add: cfg_ex_def falsy_def)
  have first: "get_signing_keys cfg_ex env_rotating warm_state =
      (Inr [(''keys'', [key_K0, key_K1])], warm_state\<lparr>trace := [Time_time]\<rparr>)"
    by (simp add: model_defs example_defs)
  have hdr: "get_unverified_header env_rotating ''K2'' = Inr [(''alg'', ''RS256''), (''kid'', ''K2'')]"
    "map_of [(''alg'', ''RS256''), (''kid'', ''K2'')] ''kid'' = Some ''K2''" "''K2'' \<noteq> []"
    by (simp_all add: example_defs)
  have absent0: "\<forall>k\<in>set (jwks_keys [(''keys'', [key_K0, key_K1])]). map_of k ''kid'' \<noteq> Some ''K2''"
    by (simp add: jwks_keys_def example_defs)
  have refetch: "requests_get env_rotating (JWKS_URL cfg_ex)
      (http_calls (trace (warm_state\<lparr>trace := [Time_time]\<rparr>))) = Response [(''keys'', [key_K0])]"
    by (simp add: model_defs example_defs)
  have absent1: "\<forall>k\<in>set (jwks_keys [(''keys'', [key_K0])]). map_of k ''kid'' \<noteq> Some ''K2''"
    by (simp add: jwks_keys_def example_defs)
  from unknown_kid_one_refresh [OF cfg first hdr absent0 refetch absent1]
  show ?thesis by (simp add: model_defs example_defs)
qed

text \<open>
  C4. Let the configuration be set, let the first request for the key set return a
  document in which no key has the identifier of the token's header, and let the refetch
  return a document in which \<open>key\<close> is the first key that has it. When the unverified
  decode with \<open>key\<close> shows an accepted issuer and the verified decode with \<open>key\<close>
  (signature, expiry, audience, that issuer) accepts the token, \<^verbatim>\<open>verify_token\<close> returns
  the verified payload. After the header was read the attempt has made one cache
  invalidation, one clock read and one HTTP request, followed by the two decodes.
\<close>

theorem rotated_key_one_refresh:
  assumes cfg: "\<not> falsy (AZURE_TENANT_ID cfg)" "\<not> falsy (AZURE_CLIENT_ID cfg)"
    and first: "get_signing_keys cfg env s = (Inr jwks0, s1)"
    and hdr: "get_unverified_header env token = Inr h" "map_of h ''kid'' = Some kid" "kid \<noteq> []"
    and absent0: "\<forall>k\<in>set (jwks_keys jwks0). map_of k ''kid'' \<noteq> Some kid"
    and refetch: "requests_get env (JWKS_URL cfg) (http_calls (trace s1)) = Response jwks1"
    and present1: "find (\<lambda>k. map_of k ''kid'' = Some kid) (jwks_keys jwks1) = Some key"
    and peek: "jwt_decode env token key [''RS256''] None None unverified_options = Inr u"
    and iss: "map_of u ''iss'' = Some iss" "iss = ISSUER_V1 cfg \<or> iss = ISSUER_V2 cfg"
    and valid: "jwt_decode env token key [''RS256''] (Some (AUDIENCE cfg)) (Some iss)
                  verified_options = Inr p"
  shows "verify_token cfg env token s =
           (Inr p,
            \<lparr>cache_keys = Some jwks1,
             cache_expires_at = float_add env (time_time env (time_calls (trace s1))) 3600,
             trace = trace s1 @ [Get_unverified_header token, Cache_invalidate, Time_time,
                                 Requests_get (JWKS_URL cfg),
                                 Jwt_decode token key [''RS256''] None None unverified_options,
                                 Jwt_decode token key [''RS256''] (Some (AUDIENCE cfg)) (Some iss)
                                   verified_options]\<rparr>)"
proof -
  from absent0 have miss0: "scan_keys (jwks_keys jwks0) kid None = None"
    by (simp add: scan_keys_None_iff)
  from present1 have hit1: "scan_keys (jwks_keys jwks1) kid None = Some key"
    by (simp add: scan_keys_find)
  have "lookup_signing_key cfg env token s =
      refresh_signing_key cfg env kid None (log_event (Get_unverified_header token) s1)"
    by (simp add: lookup_signing_key_eq [OF first hdr] miss0)
  also have "\<dots> =
      (Inr key,
       \<lparr>cache_keys = Some jwks1,
        cache_expires_at = float_add env (time_time env (time_calls (trace s1))) 3600,
        trace = trace s1 @ [Get_unverified_header token, Cache_invalidate, Time_time,
                            Requests_get (JWKS_URL cfg)]\<rparr>)"
    using refetch hit1
    by (simp add: refresh_signing_key_eq log_event_def http_calls_def time_calls_def
        CACHE_TTL_def)
  finally have lookup: "lookup_signing_key cfg env token s =
      (Inr key,
       \<lparr>cache_keys = Some jwks1,
        cache_expires_at = float_add env (time_time env (time_calls (trace s1))) 3600,
        trace = trace s1 @ [Get_unverified_header token, Cache_invalidate, Time_time,
                            Requests_get (JWKS_URL cfg)]\<rparr>)" .
  from cfg valid show ?thesis
    by (simp add: verify_token_def verify_token_try_def lookup
        decode_token_accepted [OF peek iss])
qed

theorem rotated_key_one_refresh_witness:
  "verify_token cfg_ex env_rotating ''K1'' initial_state =
     (Inr [(''iss'', ISSUER_V1 cfg_ex), (''name'', ''verified'')],
      \<lparr>cache_keys = Some [(''keys'', [key_K0, key_K1])], cache_expires_at = 4601,
       trace = [Time_time, Requests_get (JWKS_URL cfg_ex), Get_unverified_header ''K1'',
                Cache_invalidate, Time_time, Requests_get (JWKS_URL cfg_ex),
                Jwt_decode ''K1'' key_K1 [''RS256''] None None unverified_options,
                Jwt_decode ''K1'' key_K1 [''RS256''] (Some (AUDIENCE cfg_ex))
                  (Some (ISSUER_V1 cfg_ex)) verified_options]\<rparr>)"
proof -
  have cfg: "\<not> falsy (AZURE_TENANT_ID cfg_ex)" "\<not> falsy (AZURE_CLIENT_ID cfg_ex)"
    by (simp_all add: cfg_ex_def falsy_def)
  have first: "get_signing_keys cfg_ex env_rotating initial_state =
      (Inr [(''keys'', [key_K0])],
       \<lparr>cache_keys = Some [(''keys'', [key_K0])], cache_expires_at = 4600,
        trace = [Time_time, Requests_get (JWKS_URL cfg_ex)]\<rparr>)"
    by (simp add: model_defs example_defs)
  have hdr: "get_unverified_header env_rotating ''K1'' = Inr [(''alg'', ''RS256''), (''kid'', ''K1'')]"
    "map_of [(''alg'', ''RS256''), (''kid'', ''K1'')] ''kid'' = Some ''K1''" "''K1'' \<noteq> []"
    by (simp_all add: example_defs)
  have absent0: "\<forall>k\<in>set (jwks_keys [(''keys'', [key_K0])]). map_of k ''kid'' \<noteq> Some ''K1''"
    by (simp add: jwks_keys_def example_defs)
  have refetch: "requests_get env_rotating (JWKS_URL cfg_ex)
      (http_calls (trace \<lparr>cache_keys = Some [(''keys'', [key_K0])], cache_expires_at = 4600,
        trace = [Time_time, Requests_get (JWKS_URL cfg_ex)]\<rparr>)) =
      Response [(''keys'', [key_K0, key_K1])]"
    by (simp add: model_defs example_defs)
  have present1: "find (\<lambda>k. map_of k ''kid'' = Some ''K1'')
      (jwks_keys [(''keys'', [key_K0, key_K1])]) = Some key_K1"
    by (simp add: jwks_keys_def example_defs)
  have peek: "jwt_decode env_rotating ''K1'' key_K1 [''RS256''] None None unverified_options =
      Inr [(''iss'', ISSUER_V1 cfg_ex), (''name'', ''unverified'')]"
    by (simp add: model_defs example_defs)
  have iss: "map_of [(''iss'', ISSUER_V1 cfg_ex), (''name'', ''unverified'')] ''iss'' =
      Some (ISSUER_V1 cfg_ex)"
    "ISSUER_V1 cfg_ex = ISSUER_V1 cfg_ex \<or> ISSUER_V1 cfg_ex = ISSUER_V2 cfg_ex"
    by simp_all
  have valid: "jwt_decode env_rotating ''K1'' key_K1 [''RS256''] (Some (AUDIENCE cfg_ex))
      (Some (ISSUER_V1 cfg_ex)) verified_options =
      Inr [(''iss'', ISSUER_V1 cfg_ex), (''name'', ''verified'')]"
    by (simp add: model_defs example_defs)
  from rotated_key_one_refresh
    [OF cfg first hdr absent0 refetch present1 peek iss valid]
  show ?thesis by (simp add: model_defs example_defs)
qed

subsection \<open>Cache freshness\<close>

text \<open>
  C5, as the code has it. Let the cache hold a key set \<open>ks\<close> with the expiry that a
  fetch at time \<open>T\<close> stores: the float sum of \<open>T\<close> and 3600. A call that reads a
  clock value below that expiry returns \<open>ks\<close> without an HTTP request and leaves the
  cache as it is (a key set has a \<^verbatim>\<open>keys\<close> member, so it is not the empty
  dictionary). A call that reads a clock value \<open>now\<close> at or above that expiry makes
  one HTTP request; when it returns a document, the cached document and the expiry are
  replaced together, by that document and the float sum of \<open>now\<close> and 3600; when it
  fails, the call raises the 503 and both are left as they were.
\<close>

theorem cache_reuse_until_expiry:
  assumes "cache_keys s = Some ks" and "cache_expires_at s = float_add env T 3600"
  shows "(ks \<noteq> [] \<and> time_time env (time_calls (trace s)) < float_add env T 3600 \<longrightarrow>
            get_signing_keys cfg env s = (Inr ks, s\<lparr>trace := trace s @ [Time_time]\<rparr>))
       \<and> (float_add env T 3600 \<le> time_time env (time_calls (trace s)) \<and>
          requests_get env (JWKS_URL cfg) (http_calls (trace s)) = Response ks' \<longrightarrow>
            get_signing_keys cfg env s =
              (Inr ks',
               \<lparr>cache_keys = Some ks',
                cache_expires_at = float_add env (time_time env (time_calls (trace s))) 3600,
                trace = trace s @ [Time_time, Requests_get (JWKS_URL cfg)]\<rparr>))
       \<and> (float_add env T 3600 \<le> time_time env (time_calls (trace s)) \<and>
          requests_get env (JWKS_URL cfg) (http_calls (trace s)) = RequestException \<longrightarrow>
            get_signing_keys cfg env s =
              (Inl (HTTPException 503 ''Service unavailable - unable to fetch signing keys''),
               s\<lparr>trace := trace s @ [Time_time, Requests_get (JWKS_URL cfg)]\<rparr>))"
  using assms
  by (simp add: get_signing_keys_def fetch_signing_keys_def log_event_def time_calls_def
      http_calls_def CACHE_TTL_def Let_def)

theorem cache_reuse_until_expiry_witness:
  "get_signing_keys cfg_ex env_rotating warm_state =
     (Inr [(''keys'', [key_K0, key_K1])], warm_state\<lparr>trace := [Time_time]\<rparr>) \<and>
   get_signing_keys cfg_ex env_rotating stale_state =
     (Inr [(''keys'', [key_K0])],
      \<lparr>cache_keys = Some [(''keys'', [key_K0])], cache_expires_at = 4600,
       trace = [Time_time, Requests_get (JWKS_URL cfg_ex)]\<rparr>) \<and>
   get_signing_keys cfg_ex env_down stale_state =
     (Inl (HTTPException 503 ''Service unavailable - unable to fetch signing keys''),
      stale_state\<lparr>trace := [Time_time, Requests_get (JWKS_URL cfg_ex)]\<rparr>)"
proof -
  have warm: "cache_keys warm_state = Some [(''keys'', [key_K0, key_K1])]"
    "cache_expires_at warm_state = float_add env_rotating 1000 3600"
    by (simp_all add: warm_state_def env_rotating_def binary64_add_examples)
  have fresh: "[(''keys'', [key_K0, key_K1])] \<noteq> [] \<and>
      time_time env_rotating (time_calls (trace warm_state)) < float_add env_rotating 1000 3600"
    by (simp add: env_rotating_def warm_state_def time_calls_def binary64_add_examples)
  have stale: "cache_keys stale_state = Some [(''keys'', [key_K0])]"
    "cache_expires_at stale_state = float_add env_rotating (- 2700) 3600"
    by (simp_all add: stale_state_def env_rotating_def binary64_add_examples)
  have stale': "cache_expires_at stale_state = float_add env_down (- 2700) 3600"
    by (simp add: stale_state_def env_down_def binary64_add_examples)
  have expired: "float_add env_rotating (- 2700) 3600
        \<le> time_time env_rotating (time_calls (trace stale_state)) \<and>
      requests_get env_rotating (JWKS_URL cfg_ex) (http_calls (trace stale_state)) =
        Response [(''keys'', [key_K0])]"
    by (simp add: env_rotating_def stale_state_def time_calls_def http_calls_def
        binary64_add_examples)
  have down: "float_add env_down (- 2700) 3600
        \<le> time_time env_down (time_calls (trace stale_state)) \<and>
      requests_get env_down (JWKS_URL cfg_ex) (http_calls (trace stale_state)) = RequestException"
    by (simp add: env_down_def stale_state_def time_calls_def http_calls_def
        binary64_add_examples)
  from cache_reuse_until_expiry [OF warm, of cfg_ex] fresh
    cache_reuse_until_expiry [OF stale, of cfg_ex "[(''keys'', [key_K0])]"] expired
    cache_reuse_until_expiry [OF stale(1) stale', of cfg_ex] down
  show ?thesis
    by (simp add: env_rotating_def env_down_def warm_state_def stale_state_def time_calls_def
        binary64_add_examples)
qed

text \<open>
  C5, as stated, fails, because the expiry is a float sum. The first call reads the
  clock value \<open>T = 2147480048 + 2 ^ - 22\<close> and fetches; the exact sum \<open>T + 3600\<close>
  lies halfway between two doubles and the stored expiry is the lower one,
  \<open>2 ^ 31\<close>. The second call reads the clock value \<open>2 ^ 31\<close>, which is below
  \<open>T + 3600\<close>, and fetches again.
\<close>

theorem expiry_is_rounded_sum:
  "time_time env_tie 0 = tie_time \<and>
   get_signing_keys cfg_ex env_tie initial_state =
     (Inr [(''keys'', [key_K0])],
      \<lparr>cache_keys = Some [(''keys'', [key_K0])], cache_expires_at = 2147483648,
       trace = [Time_time, Requests_get (JWKS_URL cfg_ex)]\<rparr>) \<and>
   time_time env_tie 1 = 2147483648 \<and>
   time_time env_tie 1 < tie_time + 3600 \<and>
   get_signing_keys cfg_ex env_tie
      \<lparr>cache_keys = Some [(''keys'', [key_K0])], cache_expires_at = 2147483648,
       trace = [Time_time, Requests_get (JWKS_URL cfg_ex)]\<rparr> =
     (Inr [(''keys'', [key_K0])],
      \<lparr>cache_keys = Some [(''keys'', [key_K0])], cache_expires_at = 2147487248,
       trace = [Time_time, Requests_get (JWKS_URL cfg_ex),
                Time_time, Requests_get (JWKS_URL cfg_ex)]\<rparr>)"
proof -
  have clock: "time_time env_tie 0 = tie_time" "time_time env_tie 1 = 2147483648"
    by (simp_all add: env_tie_def)
  have below: "time_time env_tie 1 < tie_time + 3600"
    by (simp add: env_tie_def tie_time_def)
  have first: "get_signing_keys cfg_ex env_tie initial_state =
     (Inr [(''keys'', [key_K0])],
      \<lparr>cache_keys = Some [(''keys'', [key_K0])], cache_expires_at = 2147483648,
       trace = [Time_time, Requests_get (JWKS_URL cfg_ex)]\<rparr>)"
    by (simp add: get_signing_keys_def fetch_signing_keys_def log_event_def time_calls_def
        http_calls_def CACHE_TTL_def initial_state_def env_tie_def binary64_add_examples)
  have second: "get_signing_keys cfg_ex env_tie
      \<lparr>cache_keys = Some [(''keys'', [key_K0])], cache_expires_at = 2147483648,
       trace = [Time_time, Requests_get (JWKS_URL cfg_ex)]\<rparr> =
     (Inr [(''keys'', [key_K0])],
      \<lparr>cache_keys = Some [(''keys'', [key_K0])], cache_expires_at = 2147487248,
       trace = [Time_time, Requests_get (JWKS_URL cfg_ex),
                Time_time, Requests_get (JWKS_URL cfg_ex)]\<rparr>)"
    by (simp add: get_signing_keys_def fetch_signing_keys_def log_event_def time_calls_def
        http_calls_def CACHE_TTL_def env_tie_def binary64_add_examples)
  from clock below first second show ?thesis by simp
qed

subsection \<open>The returned claims\<close>

text \<open>
  C6. Whenever \<^verbatim>\<open>verify_token\<close> returns claims, they are the payload returned by the
  verified call of \<^verbatim>\<open>jwt.decode\<close>: the call with the key the lookup chose, the
  algorithm list, the expected audience, one of the two accepted issuers, and the options
  that switch signature and expiry verification on; that call is the last event of the
  attempt. Whenever \<^verbatim>\<open>verify_token\<close> fails, what it raises is an
  \<^verbatim>\<open>HTTPException\<close>, which carries a status and a detail text and no claims.
\<close>

theorem returned_claims_are_verified:
  "(verify_token cfg env token s = (Inr p, s') \<longrightarrow>
      (\<exists>key s1 iss.
         lookup_signing_key cfg env token s = (Inr key, s1) \<and>
         (iss = ISSUER_V1 cfg \<or> iss = ISSUER_V2 cfg) \<and>
         jwt_decode env token key [''RS256''] (Some (AUDIENCE cfg)) (Some iss) verified_options
           = Inr p \<and>
         map_of verified_options ''verify_signature'' = Some True \<and>
         map_of verified_options ''verify_exp'' = Some True \<and>
         trace s' = trace s1 @
           [Jwt_decode token key [''RS256''] None None unverified_options,
            Jwt_decode token key [''RS256''] (Some (AUDIENCE cfg)) (Some iss)
              verified_options]))
   \<and> (verify_token cfg env token s = (Inl e, s') \<longrightarrow> (\<exists>status detail. e = HTTPException status detail))"
proof (intro conjI impI)
  assume ok: "verify_token cfg env token s = (Inr p, s')"
  then have body: "verify_token_try cfg env token s = (Inr p, s')"
    by (auto simp: verify_token_def split: if_splits prod.splits sum.splits)
  then obtain key s1 where lookup: "lookup_signing_key cfg env token s = (Inr key, s1)"
    and dec: "decode_token cfg env token key s1 = (Inr p, s')"
    by (auto simp: verify_token_try_def split: prod.splits sum.splits)
  from dec obtain iss where "iss = ISSUER_V1 cfg \<or> iss = ISSUER_V2 cfg"
    and "jwt_decode env token key [''RS256''] (Some (AUDIENCE cfg)) (Some iss) verified_options
           = Inr p"
    and "trace s' = trace s1 @
           [Jwt_decode token key [''RS256''] None None unverified_options,
            Jwt_decode token key [''RS256''] (Some (AUDIENCE cfg)) (Some iss)
              verified_options]"
    by (auto simp: decode_token_def verified_decode_def log_event_def Let_def
        split: sum.splits if_splits)
  with lookup show "\<exists>key s1 iss.
         lookup_signing_key cfg env token s = (Inr key, s1) \<and>
         (iss = ISSUER_V1 cfg \<or> iss = ISSUER_V2 cfg) \<and>
         jwt_decode env token key [''RS256''] (Some (AUDIENCE cfg)) (Some iss) verified_options
           = Inr p \<and>
         map_of verified_options ''verify_signature'' = Some True \<and>
         map_of verified_options ''verify_exp'' = Some True \<and>
         trace s' = trace s1 @
           [Jwt_decode token key [''RS256''] None None unverified_options,
            Jwt_decode token key [''RS256''] (Some (AUDIENCE cfg)) (Some iss)
              verified_options]"
    by (auto simp: verified_options_def)
next
  assume "verify_token cfg env token s = (Inl e, s')"
  then obtain e' where "e = handler e' \<or>
      e = HTTPException 500 ''Server configuration error - Azure AD not configured''"
    by (auto simp: verify_token_def split: if_splits prod.splits sum.splits)
  then show "\<exists>status detail. e = HTTPException status detail"
    by (cases e') auto
qed

theorem returned_claims_are_verified_witness:
  "verify_token cfg_ex env_rotating ''K1'' warm_state =
     (Inr [(''iss'', ISSUER_V1 cfg_ex), (''name'', ''verified'')],
      warm_state\<lparr>trace :=
        [Time_time, Get_unverified_header ''K1'',
         Jwt_decode ''K1'' key_K1 [''RS256''] None None unverified_options,
         Jwt_decode ''K1'' key_K1 [''RS256''] (Some (AUDIENCE cfg_ex)) (Some (ISSUER_V1 cfg_ex))
           verified_options]\<rparr>) \<and>
   jwt_decode env_rotating ''K1'' key_K1 [''RS256''] None None unverified_options =
     Inr [(''iss'', ISSUER_V1 cfg_ex), (''name'', ''unverified'')] \<and>
   (\<exists>key s1 iss.
      lookup_signing_key cfg_ex env_rotating ''K1'' warm_state = (Inr key, s1) \<and>
      jwt_decode env_rotating ''K1'' key [''RS256''] (Some (AUDIENCE cfg_ex)) (Some iss)
        verified_options = Inr [(''iss'', ISSUER_V1 cfg_ex), (''name'', ''verified'')]) \<and>
   (\<exists>status detail.
      fst (verify_token cfg_ex env_rotating ''K1-foreign'' warm_state) =
        Inl (HTTPException status detail))"
proof -
  let ?s' = "warm_state\<lparr>trace :=
        [Time_time, Get_unverified_header ''K1'',
         Jwt_decode ''K1'' key_K1 [''RS256''] None None unverified_options,
         Jwt_decode ''K1'' key_K1 [''RS256''] (Some (AUDIENCE cfg_ex)) (Some (ISSUER_V1 cfg_ex))
           verified_options]\<rparr>"
  have run: "verify_token cfg_ex env_rotating ''K1'' warm_state =
     (Inr [(''iss'', ISSUER_V1 cfg_ex), (''name'', ''verified'')], ?s')"
    by (simp add: model_defs example_defs)
  have peek: "jwt_decode env_rotating ''K1'' key_K1 [''RS256''] None None unverified_options =
     Inr [(''iss'', ISSUER_V1 cfg_ex), (''name'', ''unverified'')]"
    by (simp add: model_defs example_defs)
  from returned_claims_are_verified
    [of cfg_ex env_rotating "''K1''" warm_state
        "[(''iss'', ISSUER_V1 cfg_ex), (''name'', ''verified'')]" ?s'] run
  have "\<exists>key s1 iss.
      lookup_signing_key cfg_ex env_rotating ''K1'' warm_state = (Inr key, s1) \<and>
      jwt_decode env_rotating ''K1'' key [''RS256''] (Some (AUDIENCE cfg_ex)) (Some iss)
        verified_options = Inr [(''iss'', ISSUER_V1 cfg_ex), (''name'', ''verified'')]"
    by blast
  moreover obtain e s2 where failed:
    "verify_token cfg_ex env_rotating ''K1-foreign'' warm_state = (Inl e, s2)"
    by (simp add: model_defs example_defs)
  from returned_claims_are_verified
    [of cfg_ex env_rotating "''K1-foreign''" warm_state _ s2 e] failed
  have "\<exists>status detail.
      fst (verify_token cfg_ex env_rotating ''K1-foreign'' warm_state) =
        Inl (HTTPException status detail)"
    by auto
  ultimately show ?thesis using run peek by simp
qed


subsection \<open>Order of the steps\<close>

lemma decode_token_events:
  "decode_token cfg env token key s = (r, s') \<Longrightarrow>
   \<exists>evs. trace s' = trace s @ evs \<and>
     (\<forall>e\<in>set evs. \<exists>aud iss opts. e = Jwt_decode token key [''RS256''] aud iss opts)"
  by (auto simp: decode_token_def verified_decode_def log_event_def Let_def
      split: sum.splits if_splits)

lemma lookup_signing_key_header_first:
  assumes "get_signing_keys cfg env s = (Inr jwks, s1)"
    and "lookup_signing_key cfg env token s = (r, s2)"
  shows "\<exists>rest. trace s2 = trace s1 @ Get_unverified_header token # rest"
  using assms unfolding lookup_signing_key_def Let_def
  by (auto simp: log_event_def split: sum.splits option.splits if_splits
      dest!: refresh_signing_key_events)

lemma verify_token_try_header_first:
  assumes keys: "get_signing_keys cfg env s = (Inr jwks, s1)"
  shows "\<exists>rest. trace (snd (verify_token_try cfg env token s)) =
           trace s1 @ Get_unverified_header token # rest"
proof -
  obtain r s2 where lookup: "lookup_signing_key cfg env token s = (r, s2)"
    by (cases "lookup_signing_key cfg env token s")
  from lookup_signing_key_header_first [OF keys lookup] obtain rest
    where rest: "trace s2 = trace s1 @ Get_unverified_header token # rest" by blast
  show ?thesis
  proof (cases r)
    case (Inl e)
    with lookup rest show ?thesis by (simp add: verify_token_try_def)
  next
    case (Inr key)
    obtain r' s3 where dec: "decode_token cfg env token key s2 = (r', s3)"
      by (cases "decode_token cfg env token key s2")
    from decode_token_events [OF dec] obtain evs where "trace s3 = trace s2 @ evs" by blast
    with Inr lookup dec rest show ?thesis by (simp add: verify_token_try_def)
  qed
qed

lemma verify_token_trace:
  "\<not> falsy (AZURE_TENANT_ID cfg) \<Longrightarrow> \<not> falsy (AZURE_CLIENT_ID cfg) \<Longrightarrow>
   trace (snd (verify_token cfg env token s)) = trace (snd (verify_token_try cfg env token s))"
  by (simp add: verify_token_def split: prod.splits sum.splits)

text \<open>
  C8, as the code has it. With the configuration set, an attempt begins with the request
  for the key set: the clock read of \<^verbatim>\<open>get_signing_keys\<close> and, unless the cache
  answers, the HTTP request. When that request fails nothing else happens, so the header
  is never read. When it returns a document, the next event is the reading of the header.
  A token whose header has no key identifier (or an empty one) is then rejected: the
  \<^verbatim>\<open>try\<close> body raises the 401 \<^verbatim>\<open>"Invalid token format"\<close>, the caller receives a 401,
  and the key set has been requested. A token whose header cannot be parsed is rejected
  through the handlers in the same place.
\<close>

theorem key_set_requested_first:
  assumes cfg: "\<not> falsy (AZURE_TENANT_ID cfg)" "\<not> falsy (AZURE_CLIENT_ID cfg)"
  shows "(\<exists>r s1 post.
            get_signing_keys cfg env s = (r, s1) \<and>
            (trace s1 = trace s @ [Time_time] \<or>
             trace s1 = trace s @ [Time_time, Requests_get (JWKS_URL cfg)]) \<and>
            trace (snd (verify_token cfg env token s)) = trace s1 @ post \<and>
            (case r of Inl e \<Rightarrow> post = []
             | Inr jwks \<Rightarrow> (\<exists>rest. post = Get_unverified_header token # rest)))
       \<and> (get_signing_keys cfg env s = (Inr jwks, s1) \<and>
          get_unverified_header env token = Inr h \<and> falsy (map_of h ''kid'') \<longrightarrow>
            verify_token_try cfg env token s =
              (Inl (HTTPException 401 ''Invalid token format''),
               s1\<lparr>trace := trace s1 @ [Get_unverified_header token]\<rparr>) \<and>
            verify_token cfg env token s =
              (Inl (HTTPException 401 ''Authentication failed''),
               s1\<lparr>trace := trace s1 @ [Get_unverified_header token]\<rparr>))
       \<and> (get_signing_keys cfg env s = (Inr jwks, s1) \<and>
          get_unverified_header env token = Inl e \<longrightarrow>
            verify_token cfg env token s =
              (Inl (handler e), s1\<lparr>trace := trace s1 @ [Get_unverified_header token]\<rparr>))"
    (is "?order \<and> (?nokid \<longrightarrow> ?format) \<and> (?noheader \<longrightarrow> ?handled)")
proof -
  have order: ?order
  proof -
    obtain r s1 where keys: "get_signing_keys cfg env s = (r, s1)"
      by (cases "get_signing_keys cfg env s")
    note shape = get_signing_keys_trace [OF keys]
    show ?thesis
    proof (cases r)
      case (Inl e)
      with keys have "verify_token_try cfg env token s = (Inl e, s1)"
        by (simp add: verify_token_try_def lookup_signing_key_def)
      with cfg have "trace (snd (verify_token cfg env token s)) = trace s1 @ []"
        by (simp add: verify_token_trace)
      with keys shape Inl show ?thesis by (intro exI [of _ "[]"] exI [of _ r] exI [of _ s1]) simp
    next
      case (Inr jwks)
      with keys verify_token_try_header_first [of cfg env s jwks s1 token] cfg
      obtain rest where "trace (snd (verify_token cfg env token s)) =
          trace s1 @ Get_unverified_header token # rest"
        by (auto simp: verify_token_trace)
      with keys shape Inr show ?thesis
        by (intro exI [of _ "Get_unverified_header token # rest"] exI [of _ r] exI [of _ s1])
          simp
    qed
  qed
  have format: ?format if ?nokid
    using that cfg
    by (auto simp: verify_token_def verify_token_try_def lookup_signing_key_def log_event_def
        falsy_def Let_def split: option.splits)
  have handled: ?handled if ?noheader
    using that cfg
    by (simp add: verify_token_def verify_token_try_def lookup_signing_key_def log_event_def
        Let_def)
  from order format handled show ?thesis by blast
qed

theorem key_set_requested_first_witness:
  "get_signing_keys cfg_ex env_rotating initial_state =
     (Inr [(''keys'', [key_K0])],
      \<lparr>cache_keys = Some [(''keys'', [key_K0])], cache_expires_at = 4600,
       trace = [Time_time, Requests_get (JWKS_URL cfg_ex)]\<rparr>) \<and>
   verify_token_try cfg_ex env_rotating ''nokid'' initial_state =
     (Inl (HTTPException 401 ''Invalid token format''),
      \<lparr>cache_keys = Some [(''keys'', [key_K0])], cache_expires_at = 4600,
       trace = [Time_time, Requests_get (JWKS_URL cfg_ex), Get_unverified_header ''nokid'']\<rparr>) \<and>
   verify_token cfg_ex env_rotating ''garbage'' initial_state =
     (Inl (HTTPException 401 ''Invalid or expired token''),
      \<lparr>cache_keys = Some [(''keys'', [key_K0])], cache_expires_at = 4600,
       trace = [Time_time, Requests_get (JWKS_URL cfg_ex), Get_unverified_header ''garbage'']\<rparr>)"
proof -
  have cfg: "\<not> falsy (AZURE_TENANT_ID cfg_ex)" "\<not> falsy (AZURE_CLIENT_ID cfg_ex)"
    by (simp_all add: cfg_ex_def falsy_def)
  let ?s1 = "\<lparr>cache_keys = Some [(''keys'', [key_K0])], cache_expires_at = 4600,
       trace = [Time_time, Requests_get (JWKS_URL cfg_ex)]\<rparr>"
  have keys: "get_signing_keys cfg_ex env_rotating initial_state =
      (Inr [(''keys'', [key_K0])], ?s1)"
    by (simp add: model_defs example_defs)
  have nokid: "get_unverified_header env_rotating ''nokid'' = Inr [(''alg'', ''RS256'')] \<and>
      falsy (map_of [(''alg'', ''RS256'')] ''kid'')"
    by (simp add: example_defs falsy_def)
  have garbage: "get_unverified_header env_rotating ''garbage'' = Inl JWTError"
    by (simp add: example_defs)
  from key_set_requested_first
      [OF cfg, of env_rotating initial_state "''nokid''" "[(''keys'', [key_K0])]" ?s1
        "[(''alg'', ''RS256'')]"] keys nokid
    key_set_requested_first
      [OF cfg, of env_rotating initial_state "''garbage''" "[(''keys'', [key_K0])]" ?s1 _ JWTError]
      garbage
  show ?thesis by simp
qed

text \<open>
  C8, as stated, fails: for a token whose header has no key identifier, and an empty
  cache, the key set is requested and fetched over the network before the header is read.
\<close>

theorem key_set_requested_for_token_without_kid:
  "get_unverified_header env_rotating ''nokid'' = Inr [(''alg'', ''RS256'')] \<and>
   verify_token cfg_ex env_rotating ''nokid'' initial_state =
     (Inl (HTTPException 401 ''Authentication failed''),
      \<lparr>cache_keys = Some [(''keys'', [key_K0])], cache_expires_at = 4600,
       trace = [Time_time, Requests_get (JWKS_URL cfg_ex), Get_unverified_header ''nokid'']\<rparr>)"
  by (simp add: model_defs example_defs)

subsection \<open>The signature algorithm\<close>

text \<open>
  C9, as the code has it. Every call of \<^verbatim>\<open>jwt.decode\<close> that an attempt makes is for
  the token at hand, with the key the lookup chose, and with the constant algorithm list
  \<^verbatim>\<open>["RS256"]\<close>. The list is the same in every world and for every key: it depends
  neither on what the token's header says nor on what the key record declares.
\<close>

theorem decode_algorithms_fixed:
  assumes "Jwt_decode t k algs aud iss opts
             \<in> set (new_events s (snd (verify_token cfg env token s)))"
  shows "algs = [''RS256''] \<and> t = token \<and>
         (\<exists>s1. lookup_signing_key cfg env token s = (Inr k, s1))"
proof (cases "falsy (AZURE_TENANT_ID cfg) \<or> falsy (AZURE_CLIENT_ID cfg)")
  case True
  with assms show ?thesis by (simp add: verify_token_def new_events_def)
next
  case False
  then have tr: "trace (snd (verify_token cfg env token s)) =
      trace (snd (verify_token_try cfg env token s))"
    by (simp add: verify_token_trace)
  obtain r s1 where lookup: "lookup_signing_key cfg env token s = (r, s1)"
    by (cases "lookup_signing_key cfg env token s")
  from lookup_signing_key_events [OF lookup] obtain evs where
    evs: "trace s1 = trace s @ evs"
      "set evs \<subseteq> {Time_time, Requests_get (JWKS_URL cfg), Cache_invalidate,
                  Get_unverified_header token}" by blast
  show ?thesis
  proof (cases r)
    case (Inl e)
    with lookup have "trace (snd (verify_token_try cfg env token s)) = trace s @ evs"
      by (simp add: verify_token_try_def evs(1))
    with assms tr evs(2) show ?thesis by (auto simp: new_events_def)
  next
    case (Inr key)
    obtain r' s2 where dec: "decode_token cfg env token key s1 = (r', s2)"
      by (cases "decode_token cfg env token key s1")
    from decode_token_events [OF dec] obtain evs' where
      evs': "trace s2 = trace s1 @ evs'"
        "\<forall>e\<in>set evs'. \<exists>aud iss opts. e = Jwt_decode token key [''RS256''] aud iss opts"
      by blast
    from Inr lookup dec have "trace (snd (verify_token_try cfg env token s)) =
        trace s @ evs @ evs'"
      by (simp add: verify_token_try_def evs(1) evs'(1))
    with assms tr have "Jwt_decode t k algs aud iss opts \<in> set evs \<union> set evs'"
      by (simp add: new_events_def)
    with evs(2) have "Jwt_decode t k algs aud iss opts \<in> set evs'" by auto
    with evs'(2) have "algs = [''RS256''] \<and> t = token \<and> k = key" by auto
    with Inr lookup show ?thesis by simp
  qed
qed

theorem decode_algorithms_fixed_witness:
  "Jwt_decode ''K1'' key_K1 [''RS256''] (Some (AUDIENCE cfg_ex)) (Some (ISSUER_V1 cfg_ex))
      verified_options
     \<in> set (new_events warm_state (snd (verify_token cfg_ex env_rotating ''K1'' warm_state))) \<and>
   (\<exists>s1. lookup_signing_key cfg_ex env_rotating ''K1'' warm_state = (Inr key_K1, s1))"
proof -
  have run: "Jwt_decode ''K1'' key_K1 [''RS256''] (Some (AUDIENCE cfg_ex))
      (Some (ISSUER_V1 cfg_ex)) verified_options
     \<in> set (new_events warm_state (snd (verify_token cfg_ex env_rotating ''K1'' warm_state)))"
    by (simp add: model_defs example_defs)
  from decode_algorithms_fixed [OF run] run show ?thesis by simp
qed

text \<open>
  C9, as stated, fails: the matched key declares \<^verbatim>\<open>RS384\<close>, and the verified decode
  is called with \<^verbatim>\<open>["RS256"]\<close> and no other algorithm; the token is accepted.
\<close>

theorem key_algorithm_not_consulted:
  "map_of key_K1 ''alg'' = Some ''RS384'' \<and>
   verify_token cfg_ex env_rotating ''K1'' warm_state =
     (Inr [(''iss'', ISSUER_V1 cfg_ex), (''name'', ''verified'')],
      warm_state\<lparr>trace :=
        [Time_time, Get_unverified_header ''K1'',
         Jwt_decode ''K1'' key_K1 [''RS256''] None None unverified_options,
         Jwt_decode ''K1'' key_K1 [''RS256''] (Some (AUDIENCE cfg_ex)) (Some (ISSUER_V1 cfg_ex))
           verified_options]\<rparr>)"
  by (simp add: model_defs example_defs)


end
